theory Spec2Isabelle
  imports Main "HOL-Library.Sublist" "HOL-Library.Word"
begin

section \<open>Python string operations used by generate\_cc\_arrays.py\<close>

text \<open>
  Python strings are modelled as HOL strings. The tool only inspects paths through
  \<open>str.endswith\<close>, \<open>str.split\<close>, \<open>str.replace\<close> and concatenation.
\<close>

definition endswith :: "string \<Rightarrow> string \<Rightarrow> bool" where
  "endswith s suf = suffix suf s"

definition startswith :: "string \<Rightarrow> string \<Rightarrow> bool" where
  "startswith s pre = prefix pre s"

text \<open>
  \<open>s.split(sep)\<close> for a non-empty separator: scan from the left, cut at every
  non-overlapping occurrence of \<open>sep\<close>. \<open>cur\<close> is the segment collected so far.
  (Python raises ValueError for an empty separator; every call site of the tool passes
  a non-empty literal.)
\<close>

function split_from :: "string \<Rightarrow> string \<Rightarrow> string \<Rightarrow> string list" where
  "split_from sep cur [] = [cur]"
| "split_from sep cur (c # cs) =
     (if sep \<noteq> [] \<and> prefix sep (c # cs)
      then cur # split_from sep [] (drop (length sep) (c # cs))
      else split_from sep (cur @ [c]) cs)"
  by pat_completeness auto
termination
  by (relation "measure (\<lambda>(sep, cur, s). length s)") auto

definition py_split :: "string \<Rightarrow> string \<Rightarrow> string list" where
  "py_split s sep = split_from sep [] s"

text \<open>
  \<open>s.replace(old, new)\<close> for a non-empty \<open>old\<close>: every non-overlapping occurrence,
  from the left, is replaced.
\<close>

function py_replace :: "string \<Rightarrow> string \<Rightarrow> string \<Rightarrow> string" where
  "py_replace [] old new = []"
| "py_replace (c # cs) old new =
     (if old \<noteq> [] \<and> prefix old (c # cs)
      then new @ py_replace (drop (length old) (c # cs)) old new
      else c # py_replace cs old new)"
  by pat_completeness auto
termination
  by (relation "measure (\<lambda>(s, old, new). length s)") auto

text \<open>Decimal and hexadecimal rendering: \<open>str(n)\<close>, \<open>bytes.hex()\<close>, \<open>hex(n)\<close>.\<close>

definition digit_char :: "nat \<Rightarrow> char" where
  "digit_char d = ''0123456789abcdef'' ! d"

function str_nat :: "nat \<Rightarrow> string" where
  "str_nat n = (if n < 10 then [digit_char n] else str_nat (n div 10) @ [digit_char (n mod 10)])"
  by pat_completeness auto
termination
  by (relation "measure id") auto

definition str_int :: "int \<Rightarrow> string" where
  "str_int i = (if i < 0 then CHR ''-'' # str_nat (nat (- i)) else str_nat (nat i))"

function hex_nat :: "nat \<Rightarrow> string" where
  "hex_nat n = (if n < 16 then [digit_char n] else hex_nat (n div 16) @ [digit_char (n mod 16)])"
  by pat_completeness auto
termination
  by (relation "measure id") auto

type_synonym byte = "8 word"

definition bytes_hex :: "byte \<Rightarrow> string" where
  "bytes_hex b = [digit_char (unat b div 16), digit_char (unat b mod 16)]"

definition py_hex :: "byte \<Rightarrow> string" where
  "py_hex b = ''0x'' @ hex_nat (unat b)"

section \<open>get\_array\_name\<close>

text \<open>
  The function has no \<open>else\<close> branch: for a path of no recognised kind control falls
  off the end and Python returns \<open>None\<close>. The result is therefore an option; no
  branch raises. \<open>split\<close> never returns an empty list, so \<open>[0]\<close> and \<open>[-1]\<close>
  cannot raise (lemma \<open>split_from_nonempty\<close>).
\<close>

definition get_array_name :: "string \<Rightarrow> (string \<times> string) option" where
  "get_array_name input_fname =
     (let base_array_name = ''g_'' @ last (py_split (hd (py_split input_fname ''.'')) ''/'')
      in if endswith input_fname ''.tflite''
         then Some (base_array_name @ ''_model_data'', ''unsigned char'')
         else if endswith input_fname ''.bmp''
         then Some (base_array_name @ ''_image_data'', ''unsigned char'')
         else if endswith input_fname ''.wav''
         then Some (base_array_name @ ''_audio_data'', ''short'')
         else None)"

text \<open>The base name in the words of the specification (section 4.2).\<close>

definition base_name :: "string \<Rightarrow> string" where
  "base_name path = last (py_split (hd (py_split path ''.'')) ''/'')"

section \<open>The environment: files, directories, standard output\<close>

text \<open>
  The tool reads input files, creates directories, writes text files and prints lines.
  These effects are modelled by explicit state passing over a \<open>world\<close>: the regular
  files with their bytes, the set of existing directories, the lines printed so far and
  the list of file-system calls made so far. Paths are compared as strings (no
  normalisation of \<open>.\<close>, \<open>..\<close> or repeated slashes, no symbolic links) and
  permissions are not modelled.
\<close>

datatype error =
    ValueError string
  | AssertionError
  | TypeError
  | FileNotFoundError string
  | IsADirectoryError string
  | NotADirectoryError string
  | FileExistsError string
  | ImageError
  | WaveError

datatype event = OpenRead string | OpenWrite string | MakeDirs string

record world =
  files :: "string \<rightharpoonup> byte list"
  dirs :: "string set"
  stdout :: "string list"
  calls :: "event list"

text \<open>
  The two collaborators of the tool are libraries outside the repository: PIL decodes an
  image file into its pixel buffer (\<open>Image.open(f).tobytes()\<close>) and the \<open>wave\<close>
  module opens a waveform container. Both are parameters of the model; \<open>None\<close> means
  the library raises on the file's bytes. A \<open>wave_read\<close> is the state of an open
  reader: the declared frame count, the size of one frame in bytes and the part of the
  data chunk not read yet.
\<close>

record wave_read =
  nframes :: nat
  framesize :: nat
  data :: "byte list"

record decoders =
  image_tobytes :: "byte list \<Rightarrow> byte list option"
  wave_open :: "byte list \<Rightarrow> wave_read option"

text \<open>\<open>open(p, 'rb')\<close> and reading the whole file.\<close>

definition open_read :: "string \<Rightarrow> world \<Rightarrow> (error + byte list) \<times> world" where
  "open_read p w =
     (let w' = w\<lparr>calls := calls w @ [OpenRead p]\<rparr>
      in case files w p of
           None \<Rightarrow> (Inl (if p \<in> dirs w then IsADirectoryError p else FileNotFoundError p), w')
         | Some bs \<Rightarrow> (Inr bs, w'))"

text \<open>\<open>os.path.dirname\<close> and \<open>os.path.join\<close> with two arguments (posixpath).\<close>

definition dirname :: "string \<Rightarrow> string" where
  "dirname p =
     (let head = rev (dropWhile (\<lambda>c. c \<noteq> CHR ''/'') (rev p))
      in if head \<noteq> [] \<and> head \<noteq> replicate (length head) CHR ''/''
         then rev (dropWhile (\<lambda>c. c = CHR ''/'') (rev head))
         else head)"

definition path_join :: "string \<Rightarrow> string \<Rightarrow> string" where
  "path_join a b =
     (if startswith b ''/'' then b
      else if a = [] \<or> endswith a ''/'' then a @ b
      else a @ ''/'' @ b)"

text \<open>
  \<open>os.makedirs(name, exist_ok=True)\<close>. The empty name is refused with
  FileNotFoundError (\<open>mkdir('')\<close> fails and \<open>''\<close> is not a directory). Otherwise
  \<open>name\<close> and every leading part of it that ends before a slash become directories,
  unless one of them is a regular file.
\<close>

fun dir_prefixes :: "string \<Rightarrow> string \<Rightarrow> string list" where
  "dir_prefixes acc [] = [acc]"
| "dir_prefixes acc (c # cs) =
     (if c = CHR ''/'' \<and> acc \<noteq> [] then acc # dir_prefixes (acc @ [c]) cs
      else dir_prefixes (acc @ [c]) cs)"

definition makedirs :: "string \<Rightarrow> world \<Rightarrow> (error + unit) \<times> world" where
  "makedirs name w =
     (let w' = w\<lparr>calls := calls w @ [MakeDirs name]\<rparr>
      in if name = [] then (Inl (FileNotFoundError name), w')
         else if files w name \<noteq> None then (Inl (FileExistsError name), w')
         else if list_ex (\<lambda>q. files w q \<noteq> None) (dir_prefixes [] name)
         then (Inl (NotADirectoryError name), w')
         else (Inr (), w'\<lparr>dirs := dirs w \<union> set (dir_prefixes [] name)\<rparr>))"

text \<open>
  \<open>open(p, 'w')\<close> truncates or creates the file; it fails on a directory and when the
  parent directory does not exist (an empty parent is the current directory).
  \<open>f.write(s)\<close> appends the encoded text.
\<close>

definition encode :: "string \<Rightarrow> byte list" where
  "encode s = map (\<lambda>c. of_nat (of_char c)) s"

definition open_write :: "string \<Rightarrow> world \<Rightarrow> (error + unit) \<times> world" where
  "open_write p w =
     (let w' = w\<lparr>calls := calls w @ [OpenWrite p]\<rparr>
      in if p \<in> dirs w then (Inl (IsADirectoryError p), w')
         else if dirname p \<noteq> [] \<and> dirname p \<notin> dirs w then (Inl (FileNotFoundError p), w')
         else (Inr (), w'\<lparr>files := (files w)(p \<mapsto> [])\<rparr>))"

definition fwrite :: "string \<Rightarrow> string \<Rightarrow> world \<Rightarrow> world" where
  "fwrite p s w =
     w\<lparr>files := (files w)(p \<mapsto> (case files w p of None \<Rightarrow> [] | Some old \<Rightarrow> old) @ encode s)\<rparr>"

definition print_line :: "string \<Rightarrow> world \<Rightarrow> world" where
  "print_line s w = w\<lparr>stdout := stdout w @ [s]\<rparr>"

section \<open>generate\_file\<close>

text \<open>
  The model of the source's generate\_file is called \<open>generate_file_py\<close>, because the
  source's name is a command keyword of Isabelle. \<open>size'\<close> is the source's
  \<open>size\<close>, the count returned by generate\_array.
\<close>

definition include_path :: "string \<Rightarrow> string" where
  "include_path out_fname = py_replace (last (py_split out_fname ''genfiles/'')) ''.cc'' ''.h''"

definition generate_file_py ::
  "string \<Rightarrow> string \<Rightarrow> string \<Rightarrow> string \<Rightarrow> nat \<Rightarrow> world \<Rightarrow> (error + unit) \<times> world" where
  "generate_file_py out_fname array_name array_type array_contents size' w =
     (case makedirs (dirname out_fname) w of
        (Inl e, w1) \<Rightarrow> (Inl e, w1)
      | (Inr _, w1) \<Rightarrow>
          if endswith out_fname ''.cc'' then
            (case open_write out_fname w1 of
               (Inl e, w2) \<Rightarrow> (Inl e, w2)
             | (Inr _, w2) \<Rightarrow>
                 (Inr (),
                  fwrite out_fname (''const unsigned int '' @ array_name @ ''_size = '' @ str_nat size' @ '';'')
                   (fwrite out_fname (''};'' @ [CHR 0x0A])
                     (fwrite out_fname array_contents
                       (fwrite out_fname
                          (''alignas(16) const '' @ array_type @ '' '' @ array_name @ ''[] = {'')
                         (fwrite out_fname
                            (''#include '' @ [CHR 0x22] @ include_path out_fname
                               @ [CHR 0x22, CHR 0x0A, CHR 0x0A])
                            w2))))))
          else if endswith out_fname ''.h'' then
            (case open_write out_fname w1 of
               (Inl e, w2) \<Rightarrow> (Inl e, w2)
             | (Inr _, w2) \<Rightarrow>
                 (Inr (),
                  fwrite out_fname (''extern const unsigned int '' @ array_name @ ''_size;'')
                   (fwrite out_fname
                      (''extern const '' @ array_type @ '' '' @ array_name @ ''[];'' @ [CHR 0x0A])
                      w2)))
          else (Inl (ValueError ''generated file must be end with .cc or .h''), w1))"

section \<open>generate\_array\<close>

text \<open>
  The .tflite loop reads one byte at a time until \<open>read(1)\<close> returns the empty bytes
  object; \<open>size\<close> and \<open>out_string\<close> are its two variables.
\<close>

fun tflite_loop :: "byte list \<Rightarrow> nat \<Rightarrow> string \<Rightarrow> nat \<times> string" where
  "tflite_loop [] size' out_string = (size', out_string)"
| "tflite_loop (byte # rest) size' out_string =
     tflite_loop rest (size' + 1) (out_string @ ''0x'' @ bytes_hex byte @ '','')"

fun bmp_loop :: "byte list \<Rightarrow> string \<Rightarrow> string" where
  "bmp_loop [] out_string = out_string"
| "bmp_loop (byte # rest) out_string = bmp_loop rest (out_string @ py_hex byte @ '','')"

text \<open>
  \<open>readframes(1)\<close> returns the next \<open>framesize\<close> bytes of the data chunk, fewer at its
  end. \<open>int.from_bytes(frame, byteorder='little', signed=True)\<close> reads them in two's
  complement; the empty bytes object is 0.
\<close>

definition readframes1 :: "wave_read \<Rightarrow> byte list \<times> wave_read" where
  "readframes1 wr = (take (framesize wr) (data wr), wr\<lparr>data := drop (framesize wr) (data wr)\<rparr>)"

fun le_unsigned :: "byte list \<Rightarrow> nat" where
  "le_unsigned [] = 0"
| "le_unsigned (b # bs) = unat b + 256 * le_unsigned bs"

definition int_from_bytes :: "byte list \<Rightarrow> int" where
  "int_from_bytes bs =
     (let u = int (le_unsigned bs); n = length bs
      in if n \<noteq> 0 \<and> 2 ^ (8 * n - 1) \<le> u then u - 2 ^ (8 * n) else u)"

fun wav_loop :: "nat \<Rightarrow> wave_read \<Rightarrow> string \<Rightarrow> string" where
  "wav_loop 0 wr out_string = out_string"
| "wav_loop (Suc n) wr out_string =
     (case readframes1 wr of
        (frame, wr') \<Rightarrow> wav_loop n wr' (out_string @ str_int (int_from_bytes frame) @ '',''))"

definition generate_array ::
  "decoders \<Rightarrow> string \<Rightarrow> world \<Rightarrow> (error + nat \<times> string) \<times> world" where
  "generate_array d input_fname w =
     (if endswith input_fname ''.tflite'' then
        (case open_read input_fname w of
           (Inl e, w1) \<Rightarrow> (Inl e, w1)
         | (Inr bs, w1) \<Rightarrow> (Inr (tflite_loop bs 0 []), w1))
      else if endswith input_fname ''.bmp'' then
        (case open_read input_fname w of
           (Inl e, w1) \<Rightarrow> (Inl e, w1)
         | (Inr bs, w1) \<Rightarrow>
             (case image_tobytes d bs of
                None \<Rightarrow> (Inl ImageError, w1)
              | Some image_bytes \<Rightarrow> (Inr (length image_bytes, bmp_loop image_bytes []), w1)))
      else if endswith input_fname ''.wav'' then
        (case open_read input_fname w of
           (Inl e, w1) \<Rightarrow> (Inl e, w1)
         | (Inr bs, w1) \<Rightarrow>
             (case wave_open d bs of
                None \<Rightarrow> (Inl WaveError, w1)
              | Some wav_file \<Rightarrow>
                  (Inr (nframes wav_file, wav_loop (nframes wav_file) wav_file []), w1)))
      else (Inl (ValueError ''input file must be .tflite, .bmp or .wav''), w))"

section \<open>main\<close>

text \<open>
  \<open>list(dict.fromkeys(inputs))\<close>: the keys of a dictionary in insertion order; a key
  seen again keeps its first position. \<open>seen\<close> is the key list built so far.
\<close>

fun fromkeys :: "'a list \<Rightarrow> 'a list \<Rightarrow> 'a list" where
  "fromkeys seen [] = seen"
| "fromkeys seen (x # xs) = (if x \<in> set seen then fromkeys seen xs else fromkeys (seen @ [x]) xs)"

text \<open>Lines 118 to 126: the output base name of one input in directory mode.\<close>

definition output_base :: "string \<Rightarrow> string \<Rightarrow> error + string" where
  "output_base output input_file =
     (let output_base_fname = path_join output (hd (py_split input_file ''.''))
      in if endswith input_file ''.tflite'' then Inr (output_base_fname @ ''_model_data'')
         else if endswith input_file ''.bmp'' then Inr (output_base_fname @ ''_image_data'')
         else if endswith input_file ''.wav'' then Inr (output_base_fname @ ''_audio_data'')
         else Inl (ValueError ''input file must be .tflite, .bmp or .wav''))"

text \<open>
  Tuple unpacking of the result of get\_array\_name raises TypeError on \<open>None\<close>.
\<close>

definition convert_one ::
  "decoders \<Rightarrow> string \<Rightarrow> string \<Rightarrow> world \<Rightarrow> (error + unit) \<times> world" where
  "convert_one d output input_file w =
     (case output_base output input_file of
        Inl e \<Rightarrow> (Inl e, w)
      | Inr output_base_fname \<Rightarrow>
          (let output_cc_fname = output_base_fname @ ''.cc'';
               w0 = print_line output_cc_fname w;
               output_hdr_fname = output_base_fname @ ''.h''
           in case generate_array d input_file w0 of
                (Inl e, w1) \<Rightarrow> (Inl e, w1)
              | (Inr (size', cc_array), w1) \<Rightarrow>
                  (case get_array_name input_file of
                     None \<Rightarrow> (Inl TypeError, w1)
                   | Some (generated_array_name, array_type) \<Rightarrow>
                       (case generate_file_py output_cc_fname generated_array_name array_type
                               cc_array size' w1 of
                          (Inl e, w2) \<Rightarrow> (Inl e, w2)
                        | (Inr _, w2) \<Rightarrow>
                            generate_file_py output_hdr_fname generated_array_name array_type
                              cc_array size' w2))))"

fun main_loop :: "decoders \<Rightarrow> string \<Rightarrow> string list \<Rightarrow> world \<Rightarrow> (error + unit) \<times> world" where
  "main_loop d output [] w = (Inr (), w)"
| "main_loop d output (input_file # rest) w =
     (case convert_one d output input_file w of
        (Inl e, w') \<Rightarrow> (Inl e, w')
      | (Inr _, w') \<Rightarrow> main_loop d output rest w')"

definition main :: "decoders \<Rightarrow> string \<Rightarrow> string list \<Rightarrow> world \<Rightarrow> (error + unit) \<times> world" where
  "main d output inputs w =
     (if endswith output ''.cc'' \<or> endswith output ''.h'' then
        (if length inputs \<noteq> 1 then (Inl AssertionError, w)
         else
           (case generate_array d (inputs ! 0) w of
              (Inl e, w1) \<Rightarrow> (Inl e, w1)
            | (Inr (size', cc_array), w1) \<Rightarrow>
                (case get_array_name (inputs ! 0) of
                   None \<Rightarrow> (Inl TypeError, w1)
                 | Some (generated_array_name, array_type) \<Rightarrow>
                     generate_file_py output generated_array_name array_type cc_array size' w1)))
      else main_loop d output (fromkeys [] inputs) w)"

section \<open>Concrete environments for the examples\<close>

text \<open>
  Stand-ins for the two libraries, used only to evaluate the model on concrete inputs:
  the image decoder returns the bytes unchanged and the waveform reader treats the file
  as headerless 16-bit mono PCM.
\<close>

definition pcm16_decoders :: decoders where
  "pcm16_decoders =
     \<lparr>image_tobytes = (\<lambda>bs. Some bs),
      wave_open = (\<lambda>bs. Some \<lparr>nframes = length bs div 2, framesize = 2, data = bs\<rparr>)\<rparr>"

definition world_of :: "(string \<times> byte list) list \<Rightarrow> world" where
  "world_of fs = \<lparr>files = map_of fs, dirs = {}, stdout = [], calls = []\<rparr>"

text \<open>The paths the tool opened for writing, in order.\<close>

definition written :: "world \<Rightarrow> string list" where
  "written w = concat (map (\<lambda>e. case e of OpenWrite p \<Rightarrow> [p] | _ \<Rightarrow> []) (calls w))"

section \<open>Notions used in the statements\<close>

text \<open>
  The token the .tflite loop appends for one byte and the token the .wav loop appends for
  one frame; the \<open>i\<close>-th frame of a reader is the \<open>i\<close>-th block of \<open>framesize\<close>
  bytes of its data chunk (shorter or empty where the chunk ends early).
\<close>

definition tflite_token :: "byte \<Rightarrow> string" where
  "tflite_token b = ''0x'' @ bytes_hex b @ '',''"

definition frame :: "wave_read \<Rightarrow> nat \<Rightarrow> byte list" where
  "frame wr i = take (framesize wr) (drop (i * framesize wr) (data wr))"

definition wav_token :: "byte list \<Rightarrow> string" where
  "wav_token f = str_int (int_from_bytes f) @ '',''"

text \<open>The suffix of each kind, and the two artifact paths of an input in directory mode.\<close>

definition kind_suffix :: "string \<Rightarrow> string" where
  "kind_suffix p =
     (if endswith p ''.tflite'' then ''_model_data''
      else if endswith p ''.bmp'' then ''_image_data''
      else if endswith p ''.wav'' then ''_audio_data''
      else [])"

definition recognized :: "string \<Rightarrow> bool" where
  "recognized p = (endswith p ''.tflite'' \<or> endswith p ''.bmp'' \<or> endswith p ''.wav'')"

definition cc_path :: "string \<Rightarrow> string \<Rightarrow> string" where
  "cc_path output input_file =
     path_join output (hd (py_split input_file ''.'')) @ kind_suffix input_file @ ''.cc''"

definition hdr_path :: "string \<Rightarrow> string \<Rightarrow> string" where
  "hdr_path output input_file =
     path_join output (hd (py_split input_file ''.'')) @ kind_suffix input_file @ ''.h''"

text \<open>The text generate\_file writes into a definition file and into a declaration file.\<close>

definition cc_text :: "string \<Rightarrow> string \<Rightarrow> string \<Rightarrow> string \<Rightarrow> nat \<Rightarrow> string" where
  "cc_text out_fname array_name array_type array_contents size' =
     ''#include '' @ [CHR 0x22] @ include_path out_fname @ [CHR 0x22, CHR 0x0A, CHR 0x0A]
     @ ''alignas(16) const '' @ array_type @ '' '' @ array_name @ ''[] = {''
     @ array_contents @ ''};'' @ [CHR 0x0A]
     @ ''const unsigned int '' @ array_name @ ''_size = '' @ str_nat size' @ '';''"

definition hdr_text :: "string \<Rightarrow> string \<Rightarrow> string" where
  "hdr_text array_name array_type =
     ''extern const '' @ array_type @ '' '' @ array_name @ ''[];'' @ [CHR 0x0A]
     @ ''extern const unsigned int '' @ array_name @ ''_size;''"

section \<open>Facts about the string operations\<close>

lemma split_from_nonempty: "split_from sep cur s \<noteq> []"
  by (induction sep cur s rule: split_from.induct) auto

lemma py_split_nonempty: "py_split s sep \<noteq> []"
  by (simp add: py_split_def split_from_nonempty)

lemma endswith_length: "endswith s suf \<Longrightarrow> length suf \<le> length s"
  by (simp add: endswith_def suffix_length_le)

lemma endswith_same_length:
  "endswith s a \<Longrightarrow> endswith s b \<Longrightarrow> length a = length b \<Longrightarrow> a = b"
  by (auto simp: endswith_def suffix_def)

lemma endswith_longer:
  "endswith s a \<Longrightarrow> endswith s b \<Longrightarrow> length b \<le> length a \<Longrightarrow> suffix b a"
  by (metis endswith_def suffix_length_suffix)

lemma kinds_exclusive:
  "\<not> (endswith s ''.tflite'' \<and> endswith s ''.bmp'')"
  "\<not> (endswith s ''.tflite'' \<and> endswith s ''.wav'')"
  "\<not> (endswith s ''.bmp'' \<and> endswith s ''.wav'')"
proof -
  show "\<not> (endswith s ''.tflite'' \<and> endswith s ''.bmp'')"
  proof
    assume a: "endswith s ''.tflite'' \<and> endswith s ''.bmp''"
    then have "suffix ''.bmp'' ''.tflite''"
      using endswith_longer [of s "''.tflite''" "''.bmp''"] by simp
    then show False by (simp add: suffix_to_prefix)
  qed
  show "\<not> (endswith s ''.tflite'' \<and> endswith s ''.wav'')"
  proof
    assume a: "endswith s ''.tflite'' \<and> endswith s ''.wav''"
    then have "suffix ''.wav'' ''.tflite''"
      using endswith_longer [of s "''.tflite''" "''.wav''"] by simp
    then show False by (simp add: suffix_to_prefix)
  qed
  show "\<not> (endswith s ''.bmp'' \<and> endswith s ''.wav'')"
  proof
    assume a: "endswith s ''.bmp'' \<and> endswith s ''.wav''"
    then have "''.bmp'' = ''.wav''"
      using endswith_same_length [of s "''.bmp''" "''.wav''"] by simp
    then show False by simp
  qed
qed

section \<open>Facts about the two reading loops\<close>

lemma tflite_loop_eq:
  "tflite_loop bs n out = (n + length bs, out @ concat (map tflite_token bs))"
  by (induction bs arbitrary: n out) (simp_all add: tflite_token_def)

lemma digit_char_hex: "d < 16 \<Longrightarrow> digit_char d \<in> set ''0123456789abcdef''"
  unfolding digit_char_def by (rule nth_mem) simp

lemma unat_byte_div16: "unat (b :: byte) div 16 < 16"
proof -
  have "unat b < 256" using unsigned_less [of b] by simp
  then show ?thesis by simp
qed

lemma frame_readframes1:
  "frame (snd (readframes1 wr)) i = frame wr (Suc i)"
  by (simp add: frame_def readframes1_def add.commute)

lemma wav_loop_eq:
  "wav_loop n wr out = out @ concat (map (\<lambda>i. wav_token (frame wr i)) [0..<n])"
proof (induction n arbitrary: wr out)
  case 0
  then show ?case by simp
next
  case (Suc n)
  have fr0: "fst (readframes1 wr) = frame wr 0"
    by (simp add: readframes1_def frame_def)
  have "map (\<lambda>i. wav_token (frame wr i)) [0..<Suc n]
        = wav_token (frame wr 0) # map (\<lambda>i. wav_token (frame (snd (readframes1 wr)) i)) [0..<n]"
    by (simp only: upt_conv_Cons [of 0 "Suc n"] map_Suc_upt [symmetric] list.map map_map o_def
        frame_readframes1)
  then show ?case
    using Suc.IH [of "snd (readframes1 wr)"] fr0
    by (simp add: split_beta wav_token_def del: upt_Suc)
qed

lemma open_read_world:
  "snd (open_read p w) = w\<lparr>calls := calls w @ [OpenRead p]\<rparr>"
  by (simp add: open_read_def Let_def split: option.splits)

lemma open_read_Some:
  "files w p = Some bs \<Longrightarrow> fst (open_read p w) = Inr bs"
  by (simp add: open_read_def Let_def)

lemma written_append: "calls w' = calls w @ es \<Longrightarrow>
  written w' = written w @ concat (map (\<lambda>e. case e of OpenWrite p \<Rightarrow> [p] | _ \<Rightarrow> []) es)"
  by (simp add: written_def)

lemma le_unsigned_bound: "le_unsigned bs < 2 ^ (8 * length bs)"
proof (induction bs)
  case Nil
  then show ?case by simp
next
  case (Cons b bs)
  have "unat b < 256" using unsigned_less [of b] by simp
  moreover have "le_unsigned bs + 1 \<le> 2 ^ (8 * length bs)" using Cons.IH by simp
  then have "256 * (le_unsigned bs + 1) \<le> 256 * 2 ^ (8 * length bs)"
    by (rule mult_le_mono2)
  ultimately have "unat b + 256 * le_unsigned bs < 256 * 2 ^ (8 * length bs)" by simp
  then show ?case by (simp add: power_add)
qed

lemma int_from_bytes_range:
  assumes "bs \<noteq> []"
  shows "- (2 ^ (8 * length bs - 1)) \<le> int_from_bytes bs"
    and "int_from_bytes bs < 2 ^ (8 * length bs - 1)"
proof -
  obtain k where k: "8 * length bs = Suc k" using assms by (cases bs) auto
  have "int (le_unsigned bs) < 2 ^ (8 * length bs)"
    using le_unsigned_bound [of bs] by (metis of_nat_less_iff of_nat_numeral of_nat_power)
  then have b: "int (le_unsigned bs) < 2 * 2 ^ k" by (simp add: k)
  show "- (2 ^ (8 * length bs - 1)) \<le> int_from_bytes bs"
    using b by (simp add: int_from_bytes_def Let_def k)
  show "int_from_bytes bs < 2 ^ (8 * length bs - 1)"
    using b assms by (simp add: int_from_bytes_def Let_def k)
qed

lemma int_from_bytes_mod:
  "int_from_bytes bs mod 2 ^ (8 * length bs) = int (le_unsigned bs)"
proof -
  have "int (le_unsigned bs) < 2 ^ (8 * length bs)"
    using le_unsigned_bound [of bs] by (metis of_nat_less_iff of_nat_numeral of_nat_power)
  then have m: "int (le_unsigned bs) mod 2 ^ (8 * length bs) = int (le_unsigned bs)"
    by simp
  show ?thesis
    using m by (simp add: int_from_bytes_def Let_def)
qed


section \<open>Claims about generate\_array\<close>

text \<open>
  C1: for a .tflite input whose file holds the bytes \<open>bs\<close>, generate\_array returns the
  count \<open>length bs\<close> and the concatenation, in file order, of one token per byte; every
  token is \<open>0x\<close>, two hexadecimal digits and a comma.
\<close>

theorem generate_array_tflite:
  assumes "endswith p ''.tflite''" and "files w p = Some bs"
  shows "fst (generate_array d p w) = Inr (length bs, concat (map tflite_token bs))
       \<and> (\<forall>b. \<exists>h1 h2. tflite_token b = [CHR ''0'', CHR ''x'', h1, h2, CHR '','']
               \<and> h1 \<in> set ''0123456789abcdef'' \<and> h2 \<in> set ''0123456789abcdef'')"
proof
  show "fst (generate_array d p w) = Inr (length bs, concat (map tflite_token bs))"
    using assms by (simp add: generate_array_def open_read_def Let_def tflite_loop_eq)
  show "\<forall>b. \<exists>h1 h2. tflite_token b = [CHR ''0'', CHR ''x'', h1, h2, CHR '','']
               \<and> h1 \<in> set ''0123456789abcdef'' \<and> h2 \<in> set ''0123456789abcdef''"
  proof
    fix b :: byte
    have "digit_char (unat b div 16) \<in> set ''0123456789abcdef''"
      by (rule digit_char_hex) (rule unat_byte_div16)
    moreover have "digit_char (unat b mod 16) \<in> set ''0123456789abcdef''"
      by (rule digit_char_hex) simp
    ultimately show "\<exists>h1 h2. tflite_token b = [CHR ''0'', CHR ''x'', h1, h2, CHR '','']
               \<and> h1 \<in> set ''0123456789abcdef'' \<and> h2 \<in> set ''0123456789abcdef''"
      by (simp add: tflite_token_def bytes_hex_def)
  qed
qed

theorem generate_array_tflite_witness:
  "endswith ''m.tflite'' ''.tflite'' \<and>
   files (world_of [(''m.tflite'', [1, 2, 0xab])]) ''m.tflite'' = Some [1, 2, 0xab] \<and>
   fst (generate_array pcm16_decoders ''m.tflite'' (world_of [(''m.tflite'', [1, 2, 0xab])]))
     = Inr (3, ''0x01,0x02,0xab,'')"
  using generate_array_tflite [of "''m.tflite''" "world_of [(''m.tflite'', [1, 2, 0xab])]"
      "[1, 2, 0xab]" pcm16_decoders]
  by (simp add: world_of_def endswith_def suffix_to_prefix tflite_token_def bytes_hex_def
      digit_char_def)

text \<open>
  C2: for a .wav input that the waveform reader opens as \<open>wv\<close>, generate\_array returns the
  declared frame count and the concatenation of one token per frame index below it; the
  \<open>i\<close>-th token is the decimal rendering of the little-endian signed reading of the
  \<open>i\<close>-th frame's bytes, followed by a comma.
\<close>

theorem generate_array_wav:
  assumes "endswith p ''.wav''" and "files w p = Some bs" and "wave_open d bs = Some wv"
  shows "fst (generate_array d p w)
         = Inr (nframes wv, concat (map (\<lambda>i. wav_token (frame wv i)) [0..<nframes wv]))"
  using assms kinds_exclusive [of p]
  by (simp add: generate_array_def open_read_def Let_def wav_loop_eq)


theorem generate_array_wav_witness:
  "endswith ''sound.wav'' ''.wav'' \<and>
   files (world_of [(''sound.wav'', [0xff, 0xff, 0, 0, 0xff, 0x7f])]) ''sound.wav''
     = Some [0xff, 0xff, 0, 0, 0xff, 0x7f] \<and>
   wave_open pcm16_decoders [0xff, 0xff, 0, 0, 0xff, 0x7f]
     = Some \<lparr>nframes = 3, framesize = 2, data = [0xff, 0xff, 0, 0, 0xff, 0x7f]\<rparr> \<and>
   fst (generate_array pcm16_decoders ''sound.wav''
          (world_of [(''sound.wav'', [0xff, 0xff, 0, 0, 0xff, 0x7f])]))
     = Inr (3, ''-1,0,32767,'')"
  using generate_array_wav [of "''sound.wav''"
      "world_of [(''sound.wav'', [0xff, 0xff, 0, 0, 0xff, 0x7f])]"
      "[0xff, 0xff, 0, 0, 0xff, 0x7f]" pcm16_decoders
      "\<lparr>nframes = 3, framesize = 2, data = [0xff, 0xff, 0, 0, 0xff, 0x7f]\<rparr>"]
  by (simp add: world_of_def endswith_def suffix_to_prefix pcm16_decoders_def wav_token_def
      frame_def int_from_bytes_def str_int_def digit_char_def upt_conv_Cons)

section \<open>Claims about get\_array\_name\<close>

text \<open>
  C7: for a path of a recognised kind the identifier is \<open>g_\<close> followed by the base name
  and the suffix of the kind, and the element type is \<open>unsigned char\<close> for .tflite and
  .bmp and \<open>short\<close> for .wav. The result is a function of the path alone.
\<close>

theorem get_array_name_recognized:
  "(endswith p ''.tflite'' \<longrightarrow>
      get_array_name p = Some (''g_'' @ base_name p @ ''_model_data'', ''unsigned char'')) \<and>
   (endswith p ''.bmp'' \<longrightarrow>
      get_array_name p = Some (''g_'' @ base_name p @ ''_image_data'', ''unsigned char'')) \<and>
   (endswith p ''.wav'' \<longrightarrow>
      get_array_name p = Some (''g_'' @ base_name p @ ''_audio_data'', ''short''))"
  using kinds_exclusive [of p]
  by (auto simp: get_array_name_def base_name_def Let_def)

theorem get_array_name_recognized_witness:
  "endswith ''a/sound.wav'' ''.wav'' \<and> endswith ''m.tflite'' ''.tflite'' \<and>
   endswith ''pics/cat.bmp'' ''.bmp'' \<and>
   get_array_name ''a/sound.wav'' = Some (''g_sound_audio_data'', ''short'') \<and>
   get_array_name ''m.tflite'' = Some (''g_m_model_data'', ''unsigned char'') \<and>
   get_array_name ''pics/cat.bmp'' = Some (''g_cat_image_data'', ''unsigned char'')"
  using get_array_name_recognized [of "''a/sound.wav''"]
    get_array_name_recognized [of "''m.tflite''"]
    get_array_name_recognized [of "''pics/cat.bmp''"]
  by (simp add: endswith_def suffix_to_prefix base_name_def py_split_def)

text \<open>
  C5: the claim says that get\_array\_name fails with UnsupportedFormat on a path of no
  recognised kind. The code has no such branch: at \<open>image.png\<close> it returns \<open>None\<close>
  and raises nothing.
\<close>

theorem get_array_name_unrecognized_returns_None:
  "get_array_name ''image.png'' = None"
  by (simp add: get_array_name_def endswith_def suffix_to_prefix Let_def)

section \<open>Facts about the file-system operations and generate\_file\<close>

lemma dir_prefixes_last: "acc @ rest \<in> set (dir_prefixes acc rest)"
  by (induction acc rest rule: dir_prefixes.induct) auto

lemma makedirs_world:
  "files (snd (makedirs name w)) = files w"
  "stdout (snd (makedirs name w)) = stdout w"
  "calls (snd (makedirs name w)) = calls w @ [MakeDirs name]"
  by (simp_all add: makedirs_def Let_def)

lemma makedirs_ok:
  "fst (makedirs name w) = Inr u \<Longrightarrow>
     dirs (snd (makedirs name w)) = dirs w \<union> set (dir_prefixes [] name) \<and> name \<noteq> []"
  by (simp add: makedirs_def Let_def split: if_splits)

lemma makedirs_ok_dir: "fst (makedirs name w) = Inr u \<Longrightarrow> name \<in> dirs (snd (makedirs name w))"
  using makedirs_ok [of name w u] dir_prefixes_last [of "[]" name] by simp

lemma makedirs_empty:
  "makedirs [] w = (Inl (FileNotFoundError []), w\<lparr>calls := calls w @ [MakeDirs []]\<rparr>)"
  by (simp add: makedirs_def Let_def)


lemma fwrite_fields:
  "stdout (fwrite p s w) = stdout w" "calls (fwrite p s w) = calls w"
  "dirs (fwrite p s w) = dirs w" "dom (files (fwrite p s w)) = insert p (dom (files w))"
  by (auto simp: fwrite_def)

lemma fwrite_content:
  "files w p = Some old \<Longrightarrow> files (fwrite p s w) p = Some (old @ encode s)"
  by (simp add: fwrite_def)

lemma fwrite_other: "q \<noteq> p \<Longrightarrow> files (fwrite p s w) q = files w q"
  by (simp add: fwrite_def)

lemma encode_append: "encode (a @ b) = encode a @ encode b"
  by (simp add: encode_def)

lemma open_write_world:
  "stdout (snd (open_write p w)) = stdout w"
  "calls (snd (open_write p w)) = calls w @ [OpenWrite p]"
  "dirs (snd (open_write p w)) = dirs w"
  by (simp_all add: open_write_def Let_def)

lemma open_write_ok:
  "fst (open_write p w) = Inr u \<Longrightarrow> files (snd (open_write p w)) = (files w)(p \<mapsto> [])"
  by (auto simp: open_write_def Let_def split: if_splits)

lemma open_write_after_makedirs:
  "dirname p \<in> dirs w \<Longrightarrow> p \<notin> dirs w \<Longrightarrow> fst (open_write p w) = Inr ()"
  by (simp add: open_write_def Let_def)

lemma generate_file_py_makedirs_fails:
  "fst (makedirs (dirname p) w) = Inl e \<Longrightarrow>
     generate_file_py p n t c sz w = (Inl e, snd (makedirs (dirname p) w))"
  by (cases "makedirs (dirname p) w") (simp add: generate_file_py_def)

lemma generate_file_py_bad_extension:
  "fst (makedirs (dirname p) w) = Inr u \<Longrightarrow> \<not> endswith p ''.cc'' \<Longrightarrow> \<not> endswith p ''.h'' \<Longrightarrow>
     generate_file_py p n t c sz w
       = (Inl (ValueError ''generated file must be end with .cc or .h''), snd (makedirs (dirname p) w))"
  by (cases "makedirs (dirname p) w") (simp add: generate_file_py_def)

lemma generate_file_py_open_fails:
  "fst (makedirs (dirname p) w) = Inr u \<Longrightarrow> endswith p ''.cc'' \<or> endswith p ''.h'' \<Longrightarrow>
   fst (open_write p (snd (makedirs (dirname p) w))) = Inl e \<Longrightarrow>
     generate_file_py p n t c sz w = (Inl e, snd (open_write p (snd (makedirs (dirname p) w))))"
  by (cases "makedirs (dirname p) w"; cases "open_write p (snd (makedirs (dirname p) w))")
     (auto simp: generate_file_py_def)

lemma fwrite_fwrite: "fwrite p b (fwrite p a w) = fwrite p (a @ b) w"
  by (simp add: fwrite_def encode_def)

lemma generate_file_py_cc:
  assumes "fst (makedirs (dirname p) w) = Inr u" and "endswith p ''.cc''"
    and "fst (open_write p (snd (makedirs (dirname p) w))) = Inr u'"
  shows "generate_file_py p n t c sz w
       = (Inr (), fwrite p (cc_text p n t c sz) (snd (open_write p (snd (makedirs (dirname p) w)))))"
  using assms
  by (cases "makedirs (dirname p) w"; cases "open_write p (snd (makedirs (dirname p) w))")
     (simp add: generate_file_py_def fwrite_fwrite cc_text_def)

lemma generate_file_py_h:
  assumes "fst (makedirs (dirname p) w) = Inr u" and "\<not> endswith p ''.cc''" and "endswith p ''.h''"
    and "fst (open_write p (snd (makedirs (dirname p) w))) = Inr u'"
  shows "generate_file_py p n t c sz w
       = (Inr (), fwrite p (hdr_text n t) (snd (open_write p (snd (makedirs (dirname p) w)))))"
  using assms
  by (cases "makedirs (dirname p) w"; cases "open_write p (snd (makedirs (dirname p) w))")
     (simp add: generate_file_py_def fwrite_fwrite hdr_text_def)


lemma written_calls: "calls w' = calls w @ [OpenWrite p] \<Longrightarrow> written w' = written w @ [p]"
  by (simp add: written_def)

lemma written_calls_other:
  "calls w' = calls w @ [MakeDirs p] \<Longrightarrow> written w' = written w"
  "calls w' = calls w @ [OpenRead p] \<Longrightarrow> written w' = written w"
  "calls w' = calls w \<Longrightarrow> written w' = written w"
  by (simp_all add: written_def)

lemma generate_file_py_ok:
  assumes ok: "fst (generate_file_py p n t c sz w) = Inr u"
  shows "stdout (snd (generate_file_py p n t c sz w)) = stdout w"
    and "written (snd (generate_file_py p n t c sz w)) = written w @ [p]"
    and "dom (files (snd (generate_file_py p n t c sz w))) = insert p (dom (files w))"
    and "endswith p ''.cc'' \<or> endswith p ''.h''"
proof -
  let ?m = "makedirs (dirname p) w"
  let ?o = "open_write p (snd ?m)"
  have m: "fst ?m = Inr ()"
  proof (cases "fst ?m")
    case (Inl e)
    then show ?thesis using ok generate_file_py_makedirs_fails [of p w e n t c sz] by simp
  next
    case (Inr v)
    then show ?thesis by simp
  qed
  show e: "endswith p ''.cc'' \<or> endswith p ''.h''"
  proof (rule ccontr)
    assume "\<not> (endswith p ''.cc'' \<or> endswith p ''.h'')"
    then show False
      using ok generate_file_py_bad_extension [OF m, of n t c sz] by simp
  qed
  have o: "fst ?o = Inr ()"
  proof (cases "fst ?o")
    case (Inl e')
    then show ?thesis using ok generate_file_py_open_fails [OF m e Inl, of n t c sz] by simp
  next
    case (Inr v)
    then show ?thesis by simp
  qed
  obtain body where g: "generate_file_py p n t c sz w = (Inr (), fwrite p body (snd ?o))"
    using generate_file_py_cc [OF m _ o, of n t c sz] generate_file_py_h [OF m _ _ o, of n t]
      e by blast
  have wm: "written (snd ?m) = written w"
    by (rule written_calls_other(1)) (rule makedirs_world(3))
  have wo: "written (snd ?o) = written (snd ?m) @ [p]"
    by (rule written_calls) (rule open_write_world(2))
  show "stdout (snd (generate_file_py p n t c sz w)) = stdout w"
    by (simp add: g fwrite_fields open_write_world makedirs_world)
  show "written (snd (generate_file_py p n t c sz w)) = written w @ [p]"
    using wm wo written_calls_other(3) [of "fwrite p body (snd ?o)" "snd ?o"]
    by (simp add: g fwrite_fields)
  show "dom (files (snd (generate_file_py p n t c sz w))) = insert p (dom (files w))"
    using open_write_ok [OF o] by (simp add: g fwrite_fields makedirs_world)
qed

lemma generate_array_world:
  "files (snd (generate_array d p w)) = files w"
  "stdout (snd (generate_array d p w)) = stdout w"
  "dirs (snd (generate_array d p w)) = dirs w"
  "written (snd (generate_array d p w)) = written w"
  by (auto simp: generate_array_def open_read_def Let_def written_def
      split: if_splits option.splits)

lemma generate_array_ok_recognized:
  "fst (generate_array d p w) = Inr x \<Longrightarrow> recognized p"
  by (auto simp: generate_array_def recognized_def split: if_splits)

lemma output_base_eq:
  "output_base output i =
     (if recognized i then Inr (path_join output (hd (py_split i ''.'')) @ kind_suffix i)
      else Inl (ValueError ''input file must be .tflite, .bmp or .wav''))"
  by (simp add: output_base_def recognized_def kind_suffix_def Let_def)

lemma get_array_name_recognized_Some:
  "recognized p \<Longrightarrow> \<exists>n t. get_array_name p = Some (n, t)"
  by (auto simp: get_array_name_def recognized_def Let_def)

section \<open>Claims about generate\_file and about single-file mode\<close>

text \<open>
  C10: generate\_file calls \<open>os.makedirs\<close> on the parent directory before it looks at
  the extension. For an output path that ends in neither \<open>.cc\<close> nor \<open>.h\<close> and
  whose parent directory can be created, the ValueError is returned in the world in which
  the parent directory (and every missing ancestor) has been created; no file is written.
\<close>

theorem generate_file_py_rejects_after_makedirs:
  assumes "\<not> endswith p ''.cc''" and "\<not> endswith p ''.h''"
    and "fst (makedirs (dirname p) w) = Inr ()"
  shows "generate_file_py p n t c sz w
           = (Inl (ValueError ''generated file must be end with .cc or .h''),
              snd (makedirs (dirname p) w))
       \<and> dirs (snd (generate_file_py p n t c sz w)) = dirs w \<union> set (dir_prefixes [] (dirname p))
       \<and> dirname p \<in> dirs (snd (generate_file_py p n t c sz w))
       \<and> files (snd (generate_file_py p n t c sz w)) = files w"
  using generate_file_py_bad_extension [OF assms(3) assms(1) assms(2), of n t c sz]
    makedirs_ok [OF assms(3)] makedirs_ok_dir [OF assms(3)] makedirs_world(1) [of "dirname p" w]
  by simp

theorem generate_file_py_rejects_after_makedirs_witness:
  "\<not> endswith ''out/sub/x.txt'' ''.cc'' \<and> \<not> endswith ''out/sub/x.txt'' ''.h'' \<and>
   fst (makedirs (dirname ''out/sub/x.txt'') (world_of [])) = Inr () \<and>
   dirs (world_of []) = {} \<and>
   fst (generate_file_py ''out/sub/x.txt'' ''g_x'' ''short'' ''1,'' 1 (world_of []))
     = Inl (ValueError ''generated file must be end with .cc or .h'') \<and>
   dirs (snd (generate_file_py ''out/sub/x.txt'' ''g_x'' ''short'' ''1,'' 1 (world_of [])))
     = {''out'', ''out/sub''}"
proof -
  have e1: "\<not> endswith ''out/sub/x.txt'' ''.cc''" and e2: "\<not> endswith ''out/sub/x.txt'' ''.h''"
    by (simp_all add: endswith_def suffix_to_prefix)
  have d: "dirname ''out/sub/x.txt'' = ''out/sub''"
    by (simp add: dirname_def)
  have m: "fst (makedirs (dirname ''out/sub/x.txt'') (world_of [])) = Inr ()"
    by (simp add: d makedirs_def world_of_def)
  have p: "set (dir_prefixes [] ''out/sub'') = {''out'', ''out/sub''}"
    by simp
  note r = generate_file_py_rejects_after_makedirs [OF e1 e2 m, of "''g_x''" "''short''" "''1,''" 1]
  have a: "fst (generate_file_py ''out/sub/x.txt'' ''g_x'' ''short'' ''1,'' 1 (world_of []))
     = Inl (ValueError ''generated file must be end with .cc or .h'')"
    by (simp only: r [THEN conjunct1] fst_conv)
  have b: "dirs (snd (generate_file_py ''out/sub/x.txt'' ''g_x'' ''short'' ''1,'' 1 (world_of [])))
     = {''out'', ''out/sub''}"
    by (simp only: r [THEN conjunct2, THEN conjunct1] d p) (simp add: world_of_def)
  have c: "dirs (world_of []) = {}" by (simp add: world_of_def)
  show ?thesis using e1 e2 m a b c by blast
qed

text \<open>
  C9: in single-file mode (the output ends in \<open>.cc\<close> or \<open>.h\<close>) a number of inputs
  other than 1 fails the assertion, and the world is unchanged: no input has been opened,
  no directory created, no file written, nothing printed.
\<close>

theorem main_single_file_needs_one_input:
  assumes "endswith output ''.cc'' \<or> endswith output ''.h''" and "length inputs \<noteq> 1"
  shows "main d output inputs w = (Inl AssertionError, w)"
  using assms by (simp add: main_def)

theorem main_single_file_needs_one_input_witness:
  "(endswith ''foo.cc'' ''.cc'' \<or> endswith ''foo.cc'' ''.h'') \<and>
   length [''a.tflite'', ''b.tflite''] \<noteq> 1 \<and>
   main pcm16_decoders ''foo.cc'' [''a.tflite'', ''b.tflite''] (world_of [(''a.tflite'', [1])])
     = (Inl AssertionError, world_of [(''a.tflite'', [1])])"
proof -
  have e: "endswith ''foo.cc'' ''.cc'' \<or> endswith ''foo.cc'' ''.h''"
    by (simp add: endswith_def suffix_to_prefix)
  have l: "length [''a.tflite'', ''b.tflite''] \<noteq> 1" by simp
  show ?thesis
    using main_single_file_needs_one_input [OF e l, of pcm16_decoders "world_of [(''a.tflite'', [1])]"] e
    by simp
qed

section \<open>Facts about directory mode\<close>

lemma convert_one_okE:
  assumes "fst (convert_one d out i w) = Inr u"
  shows "\<exists>sz arr n t w1 w2. recognized i
      \<and> generate_array d i (print_line (cc_path out i) w) = (Inr (sz, arr), w1)
      \<and> generate_file_py (cc_path out i) n t arr sz w1 = (Inr (), w2)
      \<and> convert_one d out i w = generate_file_py (hdr_path out i) n t arr sz w2"
  using assms
  by (auto simp: convert_one_def output_base_eq cc_path_def hdr_path_def Let_def
      split: sum.splits prod.splits option.splits if_splits)

lemma print_line_fields:
  "stdout (print_line s w) = stdout w @ [s]" "written (print_line s w) = written w"
  "files (print_line s w) = files w" "dirs (print_line s w) = dirs w"
  by (simp_all add: print_line_def written_def)

lemma convert_one_ok:
  assumes ok: "fst (convert_one d out i w) = Inr u"
  shows "recognized i"
    and "stdout (snd (convert_one d out i w)) = stdout w @ [cc_path out i]"
    and "written (snd (convert_one d out i w)) = written w @ [cc_path out i, hdr_path out i]"
    and "dom (files (snd (convert_one d out i w)))
           = insert (hdr_path out i) (insert (cc_path out i) (dom (files w)))"
proof -
  let ?w0 = "print_line (cc_path out i) w"
  obtain sz arr n t w1 w2 where r: "recognized i"
    and ga: "generate_array d i ?w0 = (Inr (sz, arr), w1)"
    and g1: "generate_file_py (cc_path out i) n t arr sz w1 = (Inr (), w2)"
    and c: "convert_one d out i w = generate_file_py (hdr_path out i) n t arr sz w2"
    using convert_one_okE [OF ok] by blast
  show "recognized i" by (rule r)
  have w1: "files w1 = files w" "stdout w1 = stdout w @ [cc_path out i]" "written w1 = written w"
    using generate_array_world [of d i ?w0] by (simp_all add: ga print_line_fields)
  have ok1: "fst (generate_file_py (cc_path out i) n t arr sz w1) = Inr ()" by (simp add: g1)
  have w2: "stdout w2 = stdout w1" "written w2 = written w1 @ [cc_path out i]"
    "dom (files w2) = insert (cc_path out i) (dom (files w1))"
    using generate_file_py_ok(1-3) [OF ok1] by (simp_all add: g1)
  have ok2: "fst (generate_file_py (hdr_path out i) n t arr sz w2) = Inr u"
    using ok by (simp add: c)
  show "stdout (snd (convert_one d out i w)) = stdout w @ [cc_path out i]"
    using generate_file_py_ok(1) [OF ok2] by (simp add: c w1 w2)
  show "written (snd (convert_one d out i w)) = written w @ [cc_path out i, hdr_path out i]"
    using generate_file_py_ok(2) [OF ok2] by (simp add: c w1 w2)
  show "dom (files (snd (convert_one d out i w)))
           = insert (hdr_path out i) (insert (cc_path out i) (dom (files w)))"
    using generate_file_py_ok(3) [OF ok2] by (simp add: c w1 w2)
qed

lemma main_loop_ok:
  "fst (main_loop d out xs w) = Inr u \<Longrightarrow>
     list_all recognized xs
     \<and> stdout (snd (main_loop d out xs w)) = stdout w @ map (cc_path out) xs
     \<and> written (snd (main_loop d out xs w))
         = written w @ concat (map (\<lambda>i. [cc_path out i, hdr_path out i]) xs)
     \<and> dom (files (snd (main_loop d out xs w)))
         = dom (files w) \<union> set (concat (map (\<lambda>i. [cc_path out i, hdr_path out i]) xs))"
proof (induction xs arbitrary: w)
  case Nil
  then show ?case by simp
next
  case (Cons i xs)
  obtain r w' where c: "convert_one d out i w = (r, w')" by (cases "convert_one d out i w")
  from Cons.prems c have r: "r = Inr ()" by (cases r) auto
  have ok: "fst (convert_one d out i w) = Inr ()" by (simp add: c r)
  have ml: "main_loop d out (i # xs) w = main_loop d out xs w'" by (simp add: c r)
  have ih: "fst (main_loop d out xs w') = Inr u" using Cons.prems unfolding ml by simp
  note co = convert_one_ok [OF ok, unfolded c snd_conv]
  note IH = Cons.IH [OF ih]
  show ?case
    using IH co by (simp add: c r) blast
qed

lemma remdups_snoc: "remdups (xs @ [x]) = remdups (filter (\<lambda>y. y \<noteq> x) xs) @ [x]"
  by (induction xs) auto

lemma fromkeys_first_occurrence:
  "fromkeys seen xs = seen @ rev (remdups (rev (filter (\<lambda>x. x \<notin> set seen) xs)))"
proof (induction xs arbitrary: seen)
  case Nil
  then show ?case by simp
next
  case (Cons x xs)
  show ?case
  proof (cases "x \<in> set seen")
    case True
    then show ?thesis using Cons.IH [of seen] by simp
  next
    case False
    have "rev (remdups (rev (filter (\<lambda>y. y \<notin> set seen) xs) @ [x]))
        = x # rev (remdups (rev (filter (\<lambda>y. y \<notin> set (seen @ [x])) xs)))"
      by (simp add: remdups_snoc rev_filter [symmetric] conj_commute)
    then show ?thesis using False Cons.IH [of "seen @ [x]"] by simp
  qed
qed

lemma fromkeys_distinct_set:
  "distinct (fromkeys [] xs)" "set (fromkeys [] xs) = set xs"
  by (simp_all add: fromkeys_first_occurrence)

lemma fromkeys_aba: "a \<noteq> b \<Longrightarrow> fromkeys [] [a, b, a] = [a, b]"
  by simp

section \<open>Claims about directory mode\<close>

text \<open>The definitions unfolded to run the model on a concrete input.\<close>

lemmas eval_defs = main_def convert_one_def generate_array_def generate_file_py_def makedirs_def
  open_write_def open_read_def fwrite_def print_line_def world_of_def output_base_def
  get_array_name_def endswith_def startswith_def suffix_to_prefix py_split_def dirname_def
  path_join_def pcm16_decoders_def include_path_def Let_def written_def

lemmas path_defs = cc_path_def hdr_path_def kind_suffix_def base_name_def endswith_def
  startswith_def suffix_to_prefix py_split_def path_join_def

text \<open>
  C3, as amended: in directory mode the output base path of an input is
  \<open>os.path.join(output, input.split('.')[0])\<close> followed by the suffix of the kind, so the
  directory part of the input path is kept (and an absolute input path replaces the output
  directory). When the run succeeds, the definition-file path of every input, after
  deduplication and in order, has been printed, one per line, and the definition and
  declaration file of each have been opened for writing in that order.
\<close>

theorem main_directory_mode_paths:
  assumes "\<not> endswith output ''.cc''" and "\<not> endswith output ''.h''"
    and "fst (main d output inputs w) = Inr u"
  shows "list_all recognized (fromkeys [] inputs)
       \<and> stdout (snd (main d output inputs w))
           = stdout w @ map (cc_path output) (fromkeys [] inputs)
       \<and> written (snd (main d output inputs w))
           = written w @ concat (map (\<lambda>i. [cc_path output i, hdr_path output i])
                                      (fromkeys [] inputs))"
proof -
  have m: "main d output inputs w = main_loop d output (fromkeys [] inputs) w"
    using assms(1,2) by (simp add: main_def)
  have ok: "fst (main_loop d output (fromkeys [] inputs) w) = Inr u"
    using assms(3) by (simp add: m)
  show ?thesis
    using main_loop_ok [OF ok] by (simp add: m)
qed

theorem main_directory_mode_paths_witness:
  "\<not> endswith ''out'' ''.cc'' \<and> \<not> endswith ''out'' ''.h'' \<and>
   fst (main pcm16_decoders ''out'' [''a/b/m.tflite'', ''s.wav'']
          (world_of [(''a/b/m.tflite'', [1, 2]), (''s.wav'', [0xff, 0xff])])) = Inr () \<and>
   stdout (snd (main pcm16_decoders ''out'' [''a/b/m.tflite'', ''s.wav'']
          (world_of [(''a/b/m.tflite'', [1, 2]), (''s.wav'', [0xff, 0xff])])))
     = [''out/a/b/m_model_data.cc'', ''out/s_audio_data.cc'']"
proof -
  let ?w = "world_of [(''a/b/m.tflite'', [1, 2]), (''s.wav'', [0xff, 0xff])]"
  have e1: "\<not> endswith ''out'' ''.cc''" and e2: "\<not> endswith ''out'' ''.h''"
    by (simp_all add: endswith_def suffix_to_prefix)
  have ok: "fst (main pcm16_decoders ''out'' [''a/b/m.tflite'', ''s.wav''] ?w) = Inr ()"
    by (simp add: eval_defs)
  have p: "map (cc_path ''out'') (fromkeys [] [''a/b/m.tflite'', ''s.wav''])
             = [''out/a/b/m_model_data.cc'', ''out/s_audio_data.cc'']"
    by (simp add: path_defs)
  have s: "stdout ?w = []" by (simp add: world_of_def)
  show ?thesis
    using main_directory_mode_paths [OF e1 e2 ok] e1 e2 ok by (simp only: p s) simp
qed

text \<open>
  C3 as stated: the output base path would be the output directory joined with the base
  name (final path segment, extension stripped) and the suffix. For the input
  \<open>d/m.tflite\<close> and the output directory \<open>out\<close> the tool prints
  \<open>out/d/m_model_data.cc\<close>, while the stated path is \<open>out/m_model_data.cc\<close>.
\<close>

theorem directory_mode_base_path_counterexample:
  "fst (main pcm16_decoders ''out'' [''d/m.tflite''] (world_of [(''d/m.tflite'', [1, 2])]))
     = Inr () \<and>
   stdout (snd (main pcm16_decoders ''out'' [''d/m.tflite''] (world_of [(''d/m.tflite'', [1, 2])])))
     = [''out/d/m_model_data.cc''] \<and>
   path_join ''out'' (base_name ''d/m.tflite'' @ ''_model_data'') @ ''.cc''
     = ''out/m_model_data.cc''"
  by (simp add: eval_defs base_name_def)

text \<open>
  C8: in directory mode the inputs \<open>[a, b, a]\<close> with \<open>a \<noteq> b\<close> are processed as
  \<open>[a, b]\<close>: the run is the run on \<open>[a, b]\<close>, it prints two paths, that of \<open>a\<close>
  then that of \<open>b\<close>, and opens exactly one definition file and one declaration file
  for each.
\<close>

theorem main_directory_mode_dedup:
  assumes "a \<noteq> b" and "\<not> endswith output ''.cc''" and "\<not> endswith output ''.h''"
    and "fst (main d output [a, b, a] w) = Inr u"
  shows "main d output [a, b, a] w = main d output [a, b] w
       \<and> stdout (snd (main d output [a, b, a] w))
           = stdout w @ [cc_path output a, cc_path output b]
       \<and> written (snd (main d output [a, b, a] w))
           = written w @ [cc_path output a, hdr_path output a,
                          cc_path output b, hdr_path output b]"
proof -
  have f: "fromkeys [] [a, b, a] = [a, b]" "fromkeys [] [a, b] = [a, b]"
    using assms(1) by simp_all
  have m: "main d output [a, b, a] w = main_loop d output [a, b] w"
    "main d output [a, b] w = main_loop d output [a, b] w"
    using assms(2,3) by (simp_all only: main_def f) simp_all
  have ok: "fst (main_loop d output [a, b] w) = Inr u"
    using assms(4) by (simp only: m)
  show ?thesis
    using main_loop_ok [OF ok] by (simp only: m) simp
qed

theorem main_directory_mode_dedup_witness:
  "''m.tflite'' \<noteq> ''s.wav'' \<and> \<not> endswith ''gen'' ''.cc'' \<and> \<not> endswith ''gen'' ''.h'' \<and>
   fst (main pcm16_decoders ''gen'' [''m.tflite'', ''s.wav'', ''m.tflite'']
          (world_of [(''m.tflite'', [7]), (''s.wav'', [1, 0])])) = Inr () \<and>
   stdout (snd (main pcm16_decoders ''gen'' [''m.tflite'', ''s.wav'', ''m.tflite'']
          (world_of [(''m.tflite'', [7]), (''s.wav'', [1, 0])])))
     = [''gen/m_model_data.cc'', ''gen/s_audio_data.cc''] \<and>
   written (snd (main pcm16_decoders ''gen'' [''m.tflite'', ''s.wav'', ''m.tflite'']
          (world_of [(''m.tflite'', [7]), (''s.wav'', [1, 0])])))
     = [''gen/m_model_data.cc'', ''gen/m_model_data.h'',
        ''gen/s_audio_data.cc'', ''gen/s_audio_data.h'']"
proof -
  let ?w = "world_of [(''m.tflite'', [7]), (''s.wav'', [1, 0])]"
  have n: "''m.tflite'' \<noteq> ''s.wav''" by simp
  have e1: "\<not> endswith ''gen'' ''.cc''" and e2: "\<not> endswith ''gen'' ''.h''"
    by (simp_all add: endswith_def suffix_to_prefix)
  have ok: "fst (main pcm16_decoders ''gen'' [''m.tflite'', ''s.wav'', ''m.tflite''] ?w) = Inr ()"
    by (simp add: eval_defs)
  have p: "cc_path ''gen'' ''m.tflite'' = ''gen/m_model_data.cc''"
    "hdr_path ''gen'' ''m.tflite'' = ''gen/m_model_data.h''"
    "cc_path ''gen'' ''s.wav'' = ''gen/s_audio_data.cc''"
    "hdr_path ''gen'' ''s.wav'' = ''gen/s_audio_data.h''"
    by (simp_all add: path_defs)
  have s: "stdout ?w = []" "written ?w = []" by (simp_all add: world_of_def written_def)
  note r = main_directory_mode_dedup [OF n e1 e2 ok]
  have a: "stdout (snd (main pcm16_decoders ''gen'' [''m.tflite'', ''s.wav'', ''m.tflite''] ?w))
     = [''gen/m_model_data.cc'', ''gen/s_audio_data.cc'']"
    using r [THEN conjunct2, THEN conjunct1] by (simp only: p s append_Nil)
  have b: "written (snd (main pcm16_decoders ''gen'' [''m.tflite'', ''s.wav'', ''m.tflite''] ?w))
     = [''gen/m_model_data.cc'', ''gen/m_model_data.h'',
        ''gen/s_audio_data.cc'', ''gen/s_audio_data.h'']"
    using r [THEN conjunct2, THEN conjunct2] by (simp only: p s append_Nil)
  show ?thesis
    by (intro conjI) (rule n e1 e2 ok a b)+
qed

end
